theory Spec2Isabelle
  imports Complex_Main "HOL-Library.Word" "HOL-Library.Signed_Division"
begin

unbundle bit_operations_syntax

section \<open>The DMA test driver of dma.c\<close>

text \<open>
  A shallow embedding of \<^verbatim>\<open>tutorial/afu_types/01_pim_ifc/dma/sw/dma.c\<close>: the register
  access helpers, \<^verbatim>\<open>get_bandwidth\<close>, \<^verbatim>\<open>send_descriptor\<close>, \<^verbatim>\<open>dma_transfer\<close> and
  \<^verbatim>\<open>run_basic_ddr_dma_test\<close>.  The program talks to a device through the OPAE
  library; the answers of the library and of the device are inputs of the model, the
  calls made are recorded in a log.  Console output (\<^verbatim>\<open>printf\<close>, \<^verbatim>\<open>fprintf\<close>) and the
  wall-clock figure printed at the end of \<^verbatim>\<open>dma_transfer\<close> are not modelled.  The
  polling loop is the one of the build without \<^verbatim>\<open>USE_ASE\<close>.
\<close>

subsection \<open>Values\<close>

text \<open>The result code of an OPAE call (\<^verbatim>\<open>opae/fpga.h\<close>); only \<^verbatim>\<open>FPGA_OK\<close> is success.\<close>

datatype fpga_result =
    FPGA_OK | FPGA_INVALID_PARAM | FPGA_BUSY | FPGA_EXCEPTION | FPGA_NOT_FOUND
  | FPGA_NO_MEMORY | FPGA_NOT_SUPPORTED | FPGA_NO_DRIVER | FPGA_NO_DAEMON
  | FPGA_NO_ACCESS | FPGA_RECONF_ERROR

text \<open>
  Modelled from the spec: \<^verbatim>\<open>e_dma_mode\<close> is declared in dma.h, which is not among the
  sources.  The spec gives three transfer modes; the names are the ones dma.c uses.
\<close>

datatype e_dma_mode = host_to_ddr | ddr_to_host | ddr_to_ddr

text \<open>
  Modelled from the spec: \<^verbatim>\<open>dma_descriptor_t\<close> is declared in dma.h.  The spec lists
  the four fields; \<^verbatim>\<open>send_descriptor\<close> prints the two addresses as 64-bit values
  and the length and the control word as 32-bit values.
\<close>

record dma_descriptor_t =
  src_address :: "64 word"
  dest_address :: "64 word"
  len :: "32 word"
  control :: "32 word"

text \<open>
  The constants of dma.h that dma.c uses.  The header is not among the sources, so they
  are a parameter of every function that reads one; \<open>mode_value\<close> is the number of an
  enumerator of \<^verbatim>\<open>e_dma_mode\<close>.
\<close>

record dma_h =
  MODE_SHIFT :: nat
  mode_value :: "e_dma_mode \<Rightarrow> 32 word"
  DMA_HOST_MASK :: "64 word"
  MAX_TRPT_BYTES :: real
  MIN_TRPT_GBPS :: real
  DMA_CSR_IDX_SRC_ADDR :: "32 word"
  DMA_CSR_IDX_STATUS :: "32 word"
  DMA_CSR_IDX_RD_SRC_PERF_CNTR :: "32 word"
  DMA_CSR_IDX_WR_DEST_PERF_CNTR :: "32 word"

text \<open>
  Modelled from the spec: \<^verbatim>\<open>DMA_LINE_SIZE\<close> is defined in dma.h; the spec gives the
  line size as 64 bytes, the number \<^verbatim>\<open>run_basic_ddr_dma_test\<close> itself checks the
  transfer size against.
\<close>

definition DMA_LINE_SIZE :: "32 word" where
  "DMA_LINE_SIZE = 64"

definition DMA_BUFFER_SIZE :: nat where
  "DMA_BUFFER_SIZE = 1024 * 1024"

definition TEST_BUFFER_SIZE_ASE :: int where
  "TEST_BUFFER_SIZE_ASE = 2048 * 1024"

definition TEST_BUFFER_SIZE_HW :: int where
  "TEST_BUFFER_SIZE_HW = 2048 * 1024"

subsection \<open>Doubles\<close>

text \<open>
  A \<^verbatim>\<open>double\<close> is a finite number, an infinity or a NaN.  The special values follow
  IEEE 754: a non-zero number divided by zero is an infinity, zero divided by zero is a
  NaN, every comparison with a NaN is false.  Finite results are exact (rounding is not
  modelled), and a zero is the positive zero, which is the only zero the program can
  divide by: its divisors are unsigned counts.
\<close>

datatype double = Finite real | PosInf | NegInf | NaN

definition signed_inf :: "real \<Rightarrow> double" where
  "signed_inf s = (if 0 < s then PosInf else if s < 0 then NegInf else NaN)"

fun d_mul :: "double \<Rightarrow> double \<Rightarrow> double" where
  "d_mul NaN y = NaN"
| "d_mul x NaN = NaN"
| "d_mul (Finite a) (Finite b) = Finite (a * b)"
| "d_mul (Finite a) PosInf = signed_inf a"
| "d_mul (Finite a) NegInf = signed_inf (- a)"
| "d_mul PosInf (Finite b) = signed_inf b"
| "d_mul NegInf (Finite b) = signed_inf (- b)"
| "d_mul PosInf PosInf = PosInf"
| "d_mul PosInf NegInf = NegInf"
| "d_mul NegInf PosInf = NegInf"
| "d_mul NegInf NegInf = PosInf"

fun d_div :: "double \<Rightarrow> double \<Rightarrow> double" where
  "d_div NaN y = NaN"
| "d_div x NaN = NaN"
| "d_div (Finite a) (Finite b) = (if b = 0 then signed_inf a else Finite (a / b))"
| "d_div (Finite a) PosInf = Finite 0"
| "d_div (Finite a) NegInf = Finite 0"
| "d_div PosInf (Finite b) = (if 0 \<le> b then PosInf else NegInf)"
| "d_div NegInf (Finite b) = (if 0 \<le> b then NegInf else PosInf)"
| "d_div PosInf PosInf = NaN"
| "d_div PosInf NegInf = NaN"
| "d_div NegInf PosInf = NaN"
| "d_div NegInf NegInf = NaN"

fun d_add :: "double \<Rightarrow> double \<Rightarrow> double" where
  "d_add NaN y = NaN"
| "d_add x NaN = NaN"
| "d_add (Finite a) (Finite b) = Finite (a + b)"
| "d_add (Finite a) PosInf = PosInf"
| "d_add (Finite a) NegInf = NegInf"
| "d_add PosInf (Finite b) = PosInf"
| "d_add NegInf (Finite b) = NegInf"
| "d_add PosInf PosInf = PosInf"
| "d_add PosInf NegInf = NaN"
| "d_add NegInf PosInf = NaN"
| "d_add NegInf NegInf = NegInf"

text \<open>\<^verbatim>\<open>x < y\<close> and \<^verbatim>\<open>x == y\<close> on doubles.\<close>

fun d_less :: "double \<Rightarrow> double \<Rightarrow> bool" where
  "d_less (Finite a) (Finite b) = (a < b)"
| "d_less (Finite a) PosInf = True"
| "d_less NegInf (Finite b) = True"
| "d_less NegInf PosInf = True"
| "d_less x y = False"

fun d_eq :: "double \<Rightarrow> double \<Rightarrow> bool" where
  "d_eq (Finite a) (Finite b) = (a = b)"
| "d_eq PosInf PosInf = True"
| "d_eq NegInf NegInf = True"
| "d_eq x y = False"

text \<open>The conversion of a \<^verbatim>\<open>uint64_t\<close> count to \<^verbatim>\<open>double\<close> (\<^verbatim>\<open>cnt * 1.0\<close>).\<close>

definition to_double :: "64 word \<Rightarrow> double" where
  "to_double c = Finite (real (unat c))"

subsection \<open>The world: static variables, the device, the log\<close>

type_synonym mem = "nat \<Rightarrow> 8 word"

text \<open>The calls of the OPAE library, as the log records them.\<close>

datatype event =
    Ev_fpgaWriteMMIO64 "64 word" "64 word"
  | Ev_fpgaReadMMIO64 "64 word"
  | Ev_fpgaPrepareBuffer nat
  | Ev_fpgaGetIOAddress
  | Ev_fpgaReleaseBuffer

text \<open>
  The static variables of dma.c (\<open>s_mmio_buf\<close> says whether the pointer is non-null),
  the inputs the run takes from outside, and what the run leaves behind.
  \<^item> \<open>mmio_in\<close>: what the device answers to the 64-bit register reads still to come,
    in order: the result code of \<^verbatim>\<open>fpgaReadMMIO64\<close> and the value read.  A read
    through the mapped pointer takes the value and has no result code.
  \<^item> \<open>prepare_result\<close>, \<open>ioaddr_result\<close>, \<open>ioaddr_value\<close>: the answers of
    \<^verbatim>\<open>fpgaPrepareBuffer\<close> and \<^verbatim>\<open>fpgaGetIOAddress\<close>.
  \<^item> \<open>uninit_test_buffer_size\<close>: the value the local \<^verbatim>\<open>test_buffer_size\<close> holds
    before its first assignment.
  \<^item> \<open>device_dma\<close>: what a completed transfer of the engine has done to the shared
    host buffer.
  \<^item> \<open>host_mem\<close>: the bytes of the shared host buffer, by offset.
  \<^item> \<open>events\<close>: the OPAE calls made so far, oldest first.
\<close>

record world =
  s_is_ase_sim :: bool
  s_mmio_buf :: bool
  s_error_count :: int
  mmio_in :: "(fpga_result \<times> 64 word) list"
  prepare_result :: fpga_result
  ioaddr_result :: fpga_result
  ioaddr_value :: "64 word"
  uninit_test_buffer_size :: "32 word"
  device_dma :: "e_dma_mode \<Rightarrow> mem \<Rightarrow> mem"
  host_mem :: mem
  events :: "event list"

text \<open>
  How a call ends: it returns, an \<^verbatim>\<open>assert\<close> stops the process, a store falls
  outside the buffer (at the word index given), or the answers of the device run out
  while the program still reads (it has not returned within the answers given).
\<close>

datatype assertion =
    Assert_FPGA_OK
  | Assert_mmio_dst_mod_8
  | Assert_dev_src_mod_64
  | Assert_dev_dest_mod_64
  | Assert_transfer_size_mod_64
  | Assert_transfer_size_le_ASE
  | Assert_test_buffer_size_le_HW

datatype 'a outcome = Returned 'a | Aborted assertion | Fault nat | Starved

definition then_do ::
  "(world \<Rightarrow> 'a outcome \<times> world) \<Rightarrow> ('a \<Rightarrow> world \<Rightarrow> 'b outcome \<times> world)
    \<Rightarrow> world \<Rightarrow> 'b outcome \<times> world" where
  "then_do m f w =
     (case m w of
        (Returned x, w') \<Rightarrow> f x w'
      | (Aborted a, w') \<Rightarrow> (Aborted a, w')
      | (Fault n, w') \<Rightarrow> (Fault n, w')
      | (Starved, w') \<Rightarrow> (Starved, w'))"

definition return :: "'a \<Rightarrow> world \<Rightarrow> 'a outcome \<times> world" where
  "return x w = (Returned x, w)"

definition assert_c :: "bool \<Rightarrow> assertion \<Rightarrow> world \<Rightarrow> unit outcome \<times> world" where
  "assert_c b a w = (if b then (Returned (), w) else (Aborted a, w))"

definition log_event :: "event \<Rightarrow> world \<Rightarrow> unit outcome \<times> world" where
  "log_event e w = (Returned (), w\<lparr>events := events w @ [e]\<rparr>)"

subsection \<open>The OPAE calls\<close>

definition fpgaReadMMIO64 :: "64 word \<Rightarrow> world \<Rightarrow> (fpga_result \<times> 64 word) outcome \<times> world" where
  "fpgaReadMMIO64 offset w =
     (case mmio_in w of
        [] \<Rightarrow> (Starved, w)
      | rv # rest \<Rightarrow>
          (Returned rv, w\<lparr>mmio_in := rest, events := events w @ [Ev_fpgaReadMMIO64 offset]\<rparr>))"

definition fpgaWriteMMIO64 :: "64 word \<Rightarrow> 64 word \<Rightarrow> world \<Rightarrow> unit outcome \<times> world" where
  "fpgaWriteMMIO64 offset v = log_event (Ev_fpgaWriteMMIO64 offset v)"

definition fpgaPrepareBuffer :: "nat \<Rightarrow> world \<Rightarrow> fpga_result outcome \<times> world" where
  "fpgaPrepareBuffer n w =
     (Returned (prepare_result w), w\<lparr>events := events w @ [Ev_fpgaPrepareBuffer n]\<rparr>)"

definition fpgaGetIOAddress :: "world \<Rightarrow> (fpga_result \<times> 64 word) outcome \<times> world" where
  "fpgaGetIOAddress w =
     (Returned (ioaddr_result w, ioaddr_value w),
      w\<lparr>events := events w @ [Ev_fpgaGetIOAddress]\<rparr>)"

definition fpgaReleaseBuffer :: "world \<Rightarrow> unit outcome \<times> world" where
  "fpgaReleaseBuffer = log_event Ev_fpgaReleaseBuffer"

subsection \<open>Register access\<close>

text \<open>
  \<^verbatim>\<open>readMMIO64\<close>: through the mapped pointer when there is one, through
  \<^verbatim>\<open>fpgaReadMMIO64\<close> at byte offset \<^verbatim>\<open>8 * idx\<close> and an \<^verbatim>\<open>assert\<close> on its result
  otherwise.
\<close>

definition readMMIO64 :: "32 word \<Rightarrow> world \<Rightarrow> 64 word outcome \<times> world" where
  "readMMIO64 idx w =
     (if s_mmio_buf w then
        (case mmio_in w of
           [] \<Rightarrow> (Starved, w)
         | (r, v) # rest \<Rightarrow> (Returned v, w\<lparr>mmio_in := rest\<rparr>))
      else
        then_do (fpgaReadMMIO64 (ucast (8 * idx)))
          (\<lambda>(r, v). then_do (assert_c (FPGA_OK = r) Assert_FPGA_OK) (\<lambda>_. return v)) w)"

definition mmio_read64_silent :: "64 word \<Rightarrow> world \<Rightarrow> 64 word outcome \<times> world" where
  "mmio_read64_silent addr =
     then_do (fpgaReadMMIO64 addr)
       (\<lambda>(r, v). then_do (assert_c (FPGA_OK = r) Assert_FPGA_OK) (\<lambda>_. return v))"

subsection \<open>get_bandwidth\<close>

text \<open>The two counts packed in a performance counter.\<close>

definition valid_cnt :: "64 word \<Rightarrow> 64 word" where
  "valid_cnt perf_cntr = perf_cntr AND 0xFFFFF"

definition clk_cnt :: "64 word \<Rightarrow> 64 word" where
  "clk_cnt perf_cntr = drop_bit 20 perf_cntr AND 0xFFFFF"

text \<open>
  \<^verbatim>\<open>uptime = (valid_cnt * 1.0) / (clk_cnt * 1.0)\<close> and
  \<^verbatim>\<open>bandwidth = uptime * MAX_TRPT_BYTES / 1000.0\<close>, the same lines for the read side and
  for the write side.
\<close>

definition uptime :: "64 word \<Rightarrow> double" where
  "uptime perf_cntr = d_div (to_double (valid_cnt perf_cntr)) (to_double (clk_cnt perf_cntr))"

definition bandwidth :: "dma_h \<Rightarrow> 64 word \<Rightarrow> double" where
  "bandwidth h perf_cntr =
     d_div (d_mul (uptime perf_cntr) (Finite (MAX_TRPT_BYTES h))) (Finite 1000)"

definition get_bandwidth :: "dma_h \<Rightarrow> e_dma_mode \<Rightarrow> world \<Rightarrow> double outcome \<times> world" where
  "get_bandwidth h descriptor_mode =
     then_do (readMMIO64 (DMA_CSR_IDX_RD_SRC_PERF_CNTR h)) (\<lambda>rd_src_perf_cntr.
       let read_bandwidth = bandwidth h rd_src_perf_cntr in
       if d_less read_bandwidth (Finite (MIN_TRPT_GBPS h)) then return (Finite (- 1))
       else
         then_do (readMMIO64 (DMA_CSR_IDX_WR_DEST_PERF_CNTR h)) (\<lambda>wr_dest_perf_cntr.
           let write_bandwidth = bandwidth h wr_dest_perf_cntr in
           if d_less write_bandwidth (Finite (MIN_TRPT_GBPS h)) then return (Finite (- 1))
           else return (d_div (d_add read_bandwidth write_bandwidth) (Finite 2))))"

subsection \<open>send_descriptor and dma_transfer\<close>

definition send_descriptor :: "64 word \<Rightarrow> dma_descriptor_t \<Rightarrow> world \<Rightarrow> unit outcome \<times> world" where
  "send_descriptor mmio_dst desc =
     then_do (assert_c (mmio_dst mod 8 = 0) Assert_mmio_dst_mod_8) (\<lambda>_.
       let dev_addr = (ucast mmio_dst :: 32 word) in
       then_do (fpgaWriteMMIO64 (ucast dev_addr) (src_address desc)) (\<lambda>_.
       then_do (fpgaWriteMMIO64 (ucast (dev_addr + 8)) (dest_address desc)) (\<lambda>_.
       then_do (fpgaWriteMMIO64 (ucast (dev_addr + 8 + 8)) (ucast (len desc))) (\<lambda>_.
       fpgaWriteMMIO64 (ucast (dev_addr + 8 + 8 + 8)) (ucast (control desc))))))"

definition DMA_DESC_BASE :: "dma_h \<Rightarrow> 64 word" where
  "DMA_DESC_BASE h = 8 * ucast (DMA_CSR_IDX_SRC_ADDR h)"

definition DMA_STATUS_BASE :: "dma_h \<Rightarrow> 64 word" where
  "DMA_STATUS_BASE h = 8 * ucast (DMA_CSR_IDX_STATUS h)"

definition make_descriptor ::
  "dma_h \<Rightarrow> e_dma_mode \<Rightarrow> 64 word \<Rightarrow> 64 word \<Rightarrow> 32 word \<Rightarrow> dma_descriptor_t" where
  "make_descriptor h descriptor_mode dev_src dev_dest n =
     \<lparr>src_address = dev_src AND 0xFFFFFFFF,
      dest_address = dev_dest AND 0xFFFFFFFF,
      len = n,
      control = 0x80000000 OR push_bit (MODE_SHIFT h) (mode_value h descriptor_mode)\<rparr>"

text \<open>
  The polling loop \<^verbatim>\<open>while ((mmio_data & 0x1) == 0x1)\<close>, each round one
  \<^verbatim>\<open>mmio_read64_silent\<close> of the status register.
\<close>

function poll_busy :: "64 word \<Rightarrow> 64 word \<Rightarrow> world \<Rightarrow> unit outcome \<times> world" where
  "poll_busy status_base mmio_data w =
     (if mmio_data AND 1 = 1 then
        (case mmio_read64_silent status_base w of
           (Returned v, w') \<Rightarrow> poll_busy status_base v w'
         | (Aborted a, w') \<Rightarrow> (Aborted a, w')
         | (Fault n, w') \<Rightarrow> (Fault n, w')
         | (Starved, w') \<Rightarrow> (Starved, w'))
      else (Returned (), w))"
  by pat_completeness auto
termination
  by (relation "measure (\<lambda>(status_base, mmio_data, w). length (mmio_in w))")
     (auto simp: mmio_read64_silent_def then_do_def fpgaReadMMIO64_def assert_c_def return_def
       split: list.splits if_splits)

declare poll_busy.simps [simp del]

text \<open>
  When the engine is idle again its memory traffic is done: the shared buffer holds what
  the device made of it.
\<close>

definition transfer_done :: "e_dma_mode \<Rightarrow> world \<Rightarrow> unit outcome \<times> world" where
  "transfer_done mode w = (Returned (), w\<lparr>host_mem := device_dma w mode (host_mem w)\<rparr>)"

definition dma_transfer ::
  "dma_h \<Rightarrow> e_dma_mode \<Rightarrow> 64 word \<Rightarrow> 64 word \<Rightarrow> 32 word \<Rightarrow> bool \<Rightarrow> world \<Rightarrow> unit outcome \<times> world" where
  "dma_transfer h mode dev_src dev_dest n verbose =
     then_do (assert_c (dev_src mod 64 = 0) Assert_dev_src_mod_64) (\<lambda>_.
     then_do (assert_c (dev_dest mod 64 = 0) Assert_dev_dest_mod_64) (\<lambda>_.
       let desc = make_descriptor h mode dev_src dev_dest n in
       then_do (send_descriptor (DMA_DESC_BASE h) desc) (\<lambda>_.
       then_do (send_descriptor (DMA_DESC_BASE h) desc) (\<lambda>_.
       then_do (mmio_read64_silent (DMA_STATUS_BASE h)) (\<lambda>mmio_data.
       then_do (poll_busy (DMA_STATUS_BASE h) mmio_data) (\<lambda>_.
       transfer_done mode))))))"

subsection \<open>Memory\<close>

text \<open>
  A store of a 64-bit word at word index \<open>i\<close> writes the eight bytes at offsets
  \<open>8 * i\<close> to \<open>8 * i + 7\<close>, the low byte first (the byte order of the x86-64 hosts the
  program runs on).
\<close>

definition store64 :: "mem \<Rightarrow> nat \<Rightarrow> 64 word \<Rightarrow> mem" where
  "store64 m i v = (\<lambda>a. if a div 8 = i then ucast (drop_bit (8 * (a mod 8)) v) else m a)"

definition memset :: "mem \<Rightarrow> 8 word \<Rightarrow> nat \<Rightarrow> mem" where
  "memset m c n = (\<lambda>a. if a < n then c else m a)"

text \<open>
  The loop \<^verbatim>\<open>for (int i = 0; i < test_buffer_word_size; i++) buf[i] = i;\<close> on a buffer
  of \<open>cap\<close> words, from index \<open>i\<close> on.  A store at an index that is not below \<open>cap\<close> is
  outside the buffer.
\<close>

function fill_words :: "nat \<Rightarrow> nat \<Rightarrow> nat \<Rightarrow> mem \<Rightarrow> mem outcome" where
  "fill_words cap i n m =
     (if i < n then
        (if i < cap then fill_words cap (Suc i) n (store64 m i (of_nat i)) else Fault i)
      else Returned m)"
  by pat_completeness auto
termination
  by (relation "measure (\<lambda>(cap, i, n, m). n - i)") auto

declare fill_words.simps [simp del]

text \<open>
  \<^verbatim>\<open>memcmp\<close> over the first \<open>n\<close> bytes: zero when they agree, else the difference of the
  first two bytes that differ (the program only tests the result against zero).
\<close>

fun memcmp_bytes :: "8 word list \<Rightarrow> 8 word list \<Rightarrow> int" where
  "memcmp_bytes (x # xs) (y # ys) = (if x = y then memcmp_bytes xs ys else uint x - uint y)"
| "memcmp_bytes xs ys = 0"

definition memcmp :: "mem \<Rightarrow> mem \<Rightarrow> nat \<Rightarrow> int" where
  "memcmp s1 s2 n = memcmp_bytes (map s1 [0..<n]) (map s2 [0..<n])"

text \<open>The number of offsets below \<open>n\<close> at which two memories hold different bytes.\<close>

definition byte_mismatches :: "mem \<Rightarrow> mem \<Rightarrow> nat \<Rightarrow> nat" where
  "byte_mismatches s1 s2 n = length (filter (\<lambda>a. s1 a \<noteq> s2 a) [0..<n])"

subsection \<open>run_basic_ddr_dma_test\<close>

text \<open>
  The local array \<^verbatim>\<open>expected_result\<close> after its loop: \<open>test_buffer_size\<close> bytes, filled
  with the words \<open>0, 1, 2, ...\<close>.  Its bytes before the loop are of no account: the
  program reads none beyond the words it has stored.
\<close>

definition expected_result :: "32 word \<Rightarrow> mem outcome" where
  "expected_result test_buffer_size =
     fill_words (unat (test_buffer_size div 8)) 0 (unat (test_buffer_size div 8)) (\<lambda>a. 0)"

definition set_host_mem :: "mem \<Rightarrow> world \<Rightarrow> unit outcome \<times> world" where
  "set_host_mem m w = (Returned (), w\<lparr>host_mem := m\<rparr>)"

text \<open>The loop that fills the shared buffer of \<^verbatim>\<open>DMA_BUFFER_SIZE\<close> bytes.\<close>

definition fill_dma_buf :: "32 word \<Rightarrow> world \<Rightarrow> unit outcome \<times> world" where
  "fill_dma_buf test_buffer_word_size w =
     (case fill_words (DMA_BUFFER_SIZE div 8) 0 (unat test_buffer_word_size) (host_mem w) of
        Returned m \<Rightarrow> (Returned (), w\<lparr>host_mem := m\<rparr>)
      | Aborted a \<Rightarrow> (Aborted a, w)
      | Fault i \<Rightarrow> (Fault i, w)
      | Starved \<Rightarrow> (Starved, w))"

text \<open>
  The label \<^verbatim>\<open>release_buf\<close> (lines 365 to 368) and the macro \<^verbatim>\<open>ON_ERR_GOTO\<close> with that
  label: on a result other than \<^verbatim>\<open>FPGA_OK\<close> it counts the error in \<open>s_error_count\<close>
  and jumps, so the function ends there; otherwise the function goes on with \<open>rest\<close>.
\<close>

definition release_buf :: "int \<Rightarrow> world \<Rightarrow> int outcome \<times> world" where
  "release_buf num_errors = then_do fpgaReleaseBuffer (\<lambda>_. return num_errors)"

definition count_error :: "world \<Rightarrow> unit outcome \<times> world" where
  "count_error w = (Returned (), w\<lparr>s_error_count := s_error_count w + 1\<rparr>)"

definition ON_ERR_GOTO_release_buf ::
  "fpga_result \<Rightarrow> int \<Rightarrow> (world \<Rightarrow> int outcome \<times> world) \<Rightarrow> world \<Rightarrow> int outcome \<times> world" where
  "ON_ERR_GOTO_release_buf res num_errors rest =
     (if res \<noteq> FPGA_OK then then_do count_error (\<lambda>_. release_buf num_errors) else rest)"

text \<open>
  Lines 351 to 368: the bandwidth check, the comparison and the release.
\<close>

definition check_result ::
  "double \<Rightarrow> double \<Rightarrow> mem \<Rightarrow> 32 word \<Rightarrow> world \<Rightarrow> int outcome \<times> world" where
  "check_result h2a_bw a2h_bw expected test_buffer_size w =
     (if d_eq a2h_bw (Finite (- 1)) \<or> d_eq h2a_bw (Finite (- 1)) then return (- 1) w
      else if memcmp (host_mem w) expected (unat test_buffer_size) \<noteq> 0 then release_buf 1 w
      else release_buf 0 w)"

text \<open>
  Lines 337 to 349: the transfer to the device and its bandwidth, the buffer zeroed,
  the transfer back and its bandwidth.
\<close>

definition round_trip ::
  "dma_h \<Rightarrow> 64 word \<Rightarrow> 32 word \<Rightarrow> bool \<Rightarrow> world \<Rightarrow> (double \<times> double) outcome \<times> world" where
  "round_trip h dma_buf_iova dma_len verbose =
     then_do (dma_transfer h host_to_ddr (dma_buf_iova OR DMA_HOST_MASK h) 0 dma_len verbose) (\<lambda>_.
     then_do (get_bandwidth h host_to_ddr) (\<lambda>h2a_bw.
     then_do (\<lambda>w. set_host_mem (memset (host_mem w) 0 DMA_BUFFER_SIZE) w) (\<lambda>_.
     then_do (dma_transfer h ddr_to_host 0 (dma_buf_iova OR DMA_HOST_MASK h) dma_len verbose) (\<lambda>_.
     then_do (get_bandwidth h ddr_to_host) (\<lambda>a2h_bw.
     return (h2a_bw, a2h_bw))))))"

text \<open>
  The whole function.  \<open>transfer_size\<close> is the \<^verbatim>\<open>int\<close> argument as its 32 bits;
  \<^verbatim>\<open>transfer_size % 64\<close> is C's remainder on the signed value.  In simulation the
  size check reads \<open>transfer_size\<close>; otherwise it reads \<^verbatim>\<open>test_buffer_size\<close>, which
  has not been assigned yet, against the \<^verbatim>\<open>int\<close> bound converted to unsigned.
\<close>

definition run_basic_ddr_dma_test ::
  "dma_h \<Rightarrow> 32 word \<Rightarrow> bool \<Rightarrow> world \<Rightarrow> int outcome \<times> world" where
  "run_basic_ddr_dma_test h transfer_size verbose =
     then_do (assert_c (sint transfer_size smod 64 = 0) Assert_transfer_size_mod_64) (\<lambda>_.
     then_do (\<lambda>w.
        if s_is_ase_sim w
        then assert_c (sint transfer_size \<le> TEST_BUFFER_SIZE_ASE) Assert_transfer_size_le_ASE w
        else assert_c (uint (uninit_test_buffer_size w) \<le> TEST_BUFFER_SIZE_HW)
               Assert_test_buffer_size_le_HW w) (\<lambda>_.
       let test_buffer_size = transfer_size;
           dma_len = (test_buffer_size - 1) div DMA_LINE_SIZE + 1;
           test_buffer_word_size = test_buffer_size div 8
       in
       then_do (\<lambda>w. (expected_result test_buffer_size, w)) (\<lambda>expected.
       then_do (fpgaPrepareBuffer DMA_BUFFER_SIZE) (\<lambda>res.
       ON_ERR_GOTO_release_buf res 0 (
       then_do (\<lambda>w. set_host_mem (memset (host_mem w) 0 DMA_BUFFER_SIZE) w) (\<lambda>_.
       then_do fpgaGetIOAddress (\<lambda>(res, dma_buf_iova).
       ON_ERR_GOTO_release_buf res 0 (
       then_do (fill_dma_buf test_buffer_word_size) (\<lambda>_.
       then_do (round_trip h dma_buf_iova dma_len verbose) (\<lambda>(h2a_bw, a2h_bw).
       check_result h2a_bw a2h_bw expected test_buffer_size))))))))))"

text \<open>
  The bytes the fill loop leaves: the words from index \<open>i\<close> up to \<open>n\<close> hold their own
  index, every other byte is the one of \<open>m\<close>.
\<close>

definition word_pattern :: "nat \<Rightarrow> nat \<Rightarrow> mem \<Rightarrow> mem" where
  "word_pattern i n m =
     (\<lambda>a. if i \<le> a div 8 \<and> a div 8 < n
          then ucast (drop_bit (8 * (a mod 8)) (of_nat (a div 8) :: 64 word)) else m a)"

subsection \<open>A concrete header and a concrete world\<close>

text \<open>
  Modelled from the spec: the values of dma.h where the spec gives them (the register
  indices in the order of its register layout, the threshold of 8.2 GB/s).  The spec
  does not give \<^verbatim>\<open>MODE_SHIFT\<close>, the numbers of the modes, \<^verbatim>\<open>DMA_HOST_MASK\<close> and
  \<^verbatim>\<open>MAX_TRPT_BYTES\<close>; the values here stand for them in the concrete runs below, which
  need of them only that the mask is a multiple of 64 and that an engine busy in every
  cycle is above the threshold.  The general theorems hold for every header.
\<close>

definition example_h :: dma_h where
  "example_h =
     \<lparr>MODE_SHIFT = 26,
      mode_value = (\<lambda>m. case m of host_to_ddr \<Rightarrow> 1 | ddr_to_host \<Rightarrow> 2 | ddr_to_ddr \<Rightarrow> 3),
      DMA_HOST_MASK = 0x2000000000000,
      MAX_TRPT_BYTES = 12800,
      MIN_TRPT_GBPS = 41 / 5,
      DMA_CSR_IDX_SRC_ADDR = 5,
      DMA_CSR_IDX_STATUS = 9,
      DMA_CSR_IDX_RD_SRC_PERF_CNTR = 17,
      DMA_CSR_IDX_WR_DEST_PERF_CNTR = 18\<rparr>"

text \<open>
  A run in simulation: both OPAE calls succeed, the buffer is at device address
  \<open>0x1000\<close>, the device leaves the host buffer as it is, and the answers to the
  register reads are the list \<open>ins\<close>.
\<close>

definition example_world :: "(fpga_result \<times> 64 word) list \<Rightarrow> world" where
  "example_world ins =
     \<lparr>s_is_ase_sim = True, s_mmio_buf = False, s_error_count = 0,
      mmio_in = ins,
      prepare_result = FPGA_OK, ioaddr_result = FPGA_OK, ioaddr_value = 0x1000,
      uninit_test_buffer_size = 0,
      device_dma = (\<lambda>mode m. m), host_mem = (\<lambda>a. 0), events = []\<rparr>"

text \<open>A device that answers a transfer to the host with the words \<open>0\<close> to \<open>7\<close>.\<close>

definition returning_device :: "e_dma_mode \<Rightarrow> mem \<Rightarrow> mem" where
  "returning_device mode m = (if mode = ddr_to_host then word_pattern 0 8 m else m)"

subsection \<open>Notions the properties are stated with\<close>


text \<open>What \<open>dma_transfer\<close> does after the two submissions: it reads the status register
  until the busy bit is clear.\<close>

definition await_idle :: "64 word \<Rightarrow> e_dma_mode \<Rightarrow> world \<Rightarrow> unit outcome \<times> world" where
  "await_idle base mode =
     then_do (mmio_read64_silent base) (\<lambda>mmio_data.
     then_do (poll_busy base mmio_data) (\<lambda>_. transfer_done mode))"

section \<open>Auxiliary facts\<close>

text \<open>The definitions that a run on concrete inputs unfolds.\<close>

lemmas run_defs = run_basic_ddr_dma_test_def then_do_def assert_c_def return_def log_event_def
  fpgaPrepareBuffer_def fpgaGetIOAddress_def fpgaReleaseBuffer_def set_host_mem_def
  fill_dma_buf_def ON_ERR_GOTO_release_buf_def release_buf_def count_error_def
  round_trip_def check_result_def Let_def
lemmas xfer_defs = dma_transfer_def send_descriptor_def fpgaWriteMMIO64_def fpgaReadMMIO64_def
  mmio_read64_silent_def transfer_done_def make_descriptor_def DMA_DESC_BASE_def DMA_STATUS_BASE_def
  poll_busy.simps
lemmas bw_defs = get_bandwidth_def readMMIO64_def bandwidth_def uptime_def valid_cnt_def clk_cnt_def
  to_double_def signed_inf_def
lemmas const_defs = DMA_BUFFER_SIZE_def TEST_BUFFER_SIZE_ASE_def TEST_BUFFER_SIZE_HW_def
  DMA_LINE_SIZE_def example_world_def example_h_def signed_modulo_int_def

lemma mask_20: "(0xFFFFF :: 64 word) = mask 20"
  by (simp add: mask_eq_exp_minus_1)

lemma unat_and_mask_20: "unat (w AND mask 20 :: 64 word) < 1048576"
proof -
  have "unat (take_bit 20 w) = take_bit 20 (unat w)"
    by (rule unsigned_take_bit_eq)
  moreover have "take_bit 20 (unat w) < 2 ^ 20"
    by (rule take_bit_nat_less_exp)
  moreover have "(2::nat) ^ 20 = 1048576" by simp
  ultimately show ?thesis
    by (simp only: take_bit_eq_mask [symmetric])
qed

lemma word_pattern_step:
  "i < n \<Longrightarrow> word_pattern (Suc i) n (store64 m i (of_nat i)) = word_pattern i n m"
proof (rule ext)
  fix a
  assume "i < n"
  then show "word_pattern (Suc i) n (store64 m i (of_nat i)) a = word_pattern i n m a"
    unfolding word_pattern_def store64_def
    by (cases "a div 8 = i") auto
qed

lemma word_pattern_empty: "n \<le> i \<Longrightarrow> word_pattern i n m = m"
proof (rule ext)
  fix a
  assume "n \<le> i"
  then have "\<not> (i \<le> a div 8 \<and> a div 8 < n)" by linarith
  then show "word_pattern i n m a = m a"
    unfolding word_pattern_def by (simp only: if_False)
qed

lemma fill_words_closed:
  "fill_words cap i n m =
     (if n \<le> cap \<or> n \<le> i then Returned (word_pattern i n m) else Fault (max i cap))"
proof (induction cap i n m rule: fill_words.induct)
  case (1 cap i n m)
  show ?case
  proof (cases "i < n")
    case False
    then show ?thesis
      by (subst fill_words.simps) (simp add: word_pattern_empty)
  next
    case True
    show ?thesis
    proof (cases "i < cap")
      case False
      with True show ?thesis
        by (subst fill_words.simps) (simp add: max_def)
    next
      case c: True
      have "fill_words cap i n m = fill_words cap (Suc i) n (store64 m i (of_nat i))"
        using True c by (subst fill_words.simps) simp
      also have "\<dots> = (if n \<le> cap \<or> n \<le> Suc i
          then Returned (word_pattern (Suc i) n (store64 m i (of_nat i)))
          else Fault (max (Suc i) cap))"
        using "1.IH" [OF True c] .
      also have "\<dots> = (if n \<le> cap \<or> n \<le> i then Returned (word_pattern i n m)
          else Fault (max i cap))"
        using True c by (simp add: word_pattern_step max_def)
      finally show ?thesis .
    qed
  qed
qed

lemma memcmp_bytes_zero_iff:
  "length xs = length ys \<Longrightarrow> memcmp_bytes xs ys = 0 \<longleftrightarrow> xs = ys"
proof (induction xs arbitrary: ys)
  case Nil
  then show ?case by simp
next
  case (Cons x xs)
  then obtain y ys' where ys: "ys = y # ys'" and l: "length xs = length ys'"
    by (cases ys) simp_all
  have "x \<noteq> y \<Longrightarrow> uint x \<noteq> uint y"
    by (simp add: word_uint_eq_iff)
  then show ?case
    using Cons.IH [OF l] by (simp add: ys)
qed

lemma memcmp_zero_iff: "memcmp s1 s2 n = 0 \<longleftrightarrow> (\<forall>a<n. s1 a = s2 a)"
proof -
  have "memcmp s1 s2 n = 0 \<longleftrightarrow> map s1 [0..<n] = map s2 [0..<n]"
    unfolding memcmp_def by (rule memcmp_bytes_zero_iff) simp
  also have "\<dots> \<longleftrightarrow> (\<forall>a<n. s1 a = s2 a)"
    by (simp add: list_eq_iff_nth_eq)
  finally show ?thesis .
qed

lemma byte_mismatches_zero_iff: "byte_mismatches s1 s2 n = 0 \<longleftrightarrow> (\<forall>a<n. s1 a = s2 a)"
  by (auto simp: byte_mismatches_def filter_empty_conv)

lemma memcmp_byte_mismatches: "memcmp s1 s2 n = 0 \<longleftrightarrow> byte_mismatches s1 s2 n = 0"
  by (simp only: memcmp_zero_iff byte_mismatches_zero_iff)

lemma expected_result_closed:
  "expected_result tbs = Returned (word_pattern 0 (unat (tbs div 8)) (\<lambda>a. 0))"
  unfolding expected_result_def
  by (subst fill_words_closed) (simp only: le_refl simp_thms if_True)

lemmas eval_defs = run_defs xfer_defs bw_defs const_defs expected_result_closed fill_words_closed

lemma base_mod_8: "(8 * x :: 64 word) mod 8 = 0"
proof -
  have a: "(8 * x :: 64 word) mod 8 = 8 * x AND mask 3"
    using word_mod_2p_is_mask [of 3 "8 * x"] by simp
  have b: "8 * x = push_bit 3 x"
    by (simp add: push_bit_eq_mult)
  have c: "push_bit 3 x AND mask 3 = 0"
    by (rule bit_eqI) (auto simp: bit_simps)
  show ?thesis
    by (subst a, subst b) (rule c)
qed





lemma mmio_read64_silent_cases:
  "mmio_read64_silent base w =
     (case mmio_in w of
        [] \<Rightarrow> (Starved, w)
      | (r, v) # rest \<Rightarrow>
          (if r = FPGA_OK then Returned v else Aborted Assert_FPGA_OK,
           w\<lparr>mmio_in := rest, events := events w @ [Ev_fpgaReadMMIO64 base]\<rparr>))"
  by (auto simp: mmio_read64_silent_def then_do_def fpgaReadMMIO64_def assert_c_def return_def
      split: list.splits)

lemma poll_busy_result:
  "\<exists>k. events (snd (poll_busy base d w)) = events w @ replicate k (Ev_fpgaReadMMIO64 base) \<and>
       (fst (poll_busy base d w) = Returned () \<or>
        fst (poll_busy base d w) = Aborted Assert_FPGA_OK \<or>
        fst (poll_busy base d w) = Starved)"
proof (induction base d w rule: poll_busy.induct)
  case (1 base d w)
  show ?case
  proof (cases "d AND 1 = 1")
    case False
    then have "poll_busy base d w = (Returned (), w)"
      by (subst poll_busy.simps) simp
    then show ?thesis by simp
  next
    case True
    show ?thesis
    proof (cases "mmio_in w")
      case Nil
      then have "poll_busy base d w = (Starved, w)"
        using True by (subst poll_busy.simps) (simp add: mmio_read64_silent_cases)
      then show ?thesis by simp
    next
      case (Cons rv rest)
      obtain r v where rv: "rv = (r, v)" by (cases rv)
      let ?w' = "w\<lparr>mmio_in := rest, events := events w @ [Ev_fpgaReadMMIO64 base]\<rparr>"
      show ?thesis
      proof (cases "r = FPGA_OK")
        case False
        then have "poll_busy base d w = (Aborted Assert_FPGA_OK, ?w')"
          using True Cons rv by (subst poll_busy.simps) (simp add: mmio_read64_silent_cases)
        then have "events (snd (poll_busy base d w)) =
              events w @ replicate 1 (Ev_fpgaReadMMIO64 base) \<and>
            fst (poll_busy base d w) = Aborted Assert_FPGA_OK"
          by simp
        then show ?thesis by blast
      next
        case ok: True
        have rd: "mmio_read64_silent base w = (Returned v, ?w')"
          using Cons rv ok by (simp add: mmio_read64_silent_cases)
        then have eq: "poll_busy base d w = poll_busy base v ?w'"
          using True by (subst poll_busy.simps) simp
        from "1.IH" [OF True rd [symmetric] refl]
        obtain k where k: "events (snd (poll_busy base v ?w')) =
            events ?w' @ replicate k (Ev_fpgaReadMMIO64 base)"
          and f: "fst (poll_busy base v ?w') = Returned () \<or>
            fst (poll_busy base v ?w') = Aborted Assert_FPGA_OK \<or>
            fst (poll_busy base v ?w') = Starved"
          by blast
        from k have "events (snd (poll_busy base d w)) =
            events w @ replicate (Suc k) (Ev_fpgaReadMMIO64 base)"
          by (simp add: eq)
        with f show ?thesis unfolding eq [symmetric] by blast
      qed
    qed
  qed
qed

lemma await_idle_result:
  "\<exists>k. events (snd (await_idle base mode w)) = events w @ replicate k (Ev_fpgaReadMMIO64 base) \<and>
       (fst (await_idle base mode w) = Returned () \<or>
        fst (await_idle base mode w) = Aborted Assert_FPGA_OK \<or>
        fst (await_idle base mode w) = Starved)"
proof (cases "mmio_in w")
  case Nil
  then have "await_idle base mode w = (Starved, w)"
    by (simp add: await_idle_def then_do_def mmio_read64_silent_cases)
  then show ?thesis by simp
next
  case (Cons rv rest)
  obtain r v where rv: "rv = (r, v)" by (cases rv)
  let ?w' = "w\<lparr>mmio_in := rest, events := events w @ [Ev_fpgaReadMMIO64 base]\<rparr>"
  show ?thesis
  proof (cases "r = FPGA_OK")
    case False
    then have "await_idle base mode w = (Aborted Assert_FPGA_OK, ?w')"
      using Cons rv by (simp add: await_idle_def then_do_def mmio_read64_silent_cases)
    then have "events (snd (await_idle base mode w)) =
          events w @ replicate 1 (Ev_fpgaReadMMIO64 base) \<and>
        fst (await_idle base mode w) = Aborted Assert_FPGA_OK"
      by simp
    then show ?thesis by blast
  next
    case True
    obtain k where k: "events (snd (poll_busy base v ?w')) =
        events ?w' @ replicate k (Ev_fpgaReadMMIO64 base)"
      and f: "fst (poll_busy base v ?w') = Returned () \<or>
        fst (poll_busy base v ?w') = Aborted Assert_FPGA_OK \<or>
        fst (poll_busy base v ?w') = Starved"
      using poll_busy_result [of base v ?w'] by blast
    have eq: "await_idle base mode w =
        (case poll_busy base v ?w' of
           (Returned x, w'') \<Rightarrow> transfer_done mode w''
         | (Aborted a, w'') \<Rightarrow> (Aborted a, w'')
         | (Fault n, w'') \<Rightarrow> (Fault n, w'')
         | (Starved, w'') \<Rightarrow> (Starved, w''))"
      using Cons rv True by (simp add: await_idle_def then_do_def mmio_read64_silent_cases)
    obtain x w'' where p: "poll_busy base v ?w' = (x, w'')" by (cases "poll_busy base v ?w'")
    from k f p have "events (snd (await_idle base mode w)) =
          events w @ replicate (Suc k) (Ev_fpgaReadMMIO64 base) \<and>
       (fst (await_idle base mode w) = Returned () \<or>
        fst (await_idle base mode w) = Aborted Assert_FPGA_OK \<or>
        fst (await_idle base mode w) = Starved)"
      by (auto simp: eq transfer_done_def)
    then show ?thesis by blast
  qed
qed

lemma poll_busy_reads_ok:
  "list_all (\<lambda>rv. fst rv = FPGA_OK) (mmio_in w) \<Longrightarrow>
     fst (poll_busy base d w) \<noteq> Aborted Assert_FPGA_OK"
proof (induction base d w rule: poll_busy.induct)
  case (1 base d w)
  show ?case
  proof (cases "d AND 1 = 1")
    case False
    then have "poll_busy base d w = (Returned (), w)"
      by (subst poll_busy.simps) simp
    then show ?thesis by simp
  next
    case True
    show ?thesis
    proof (cases "mmio_in w")
      case Nil
      then have "poll_busy base d w = (Starved, w)"
        using True by (subst poll_busy.simps) (simp add: mmio_read64_silent_cases)
      then show ?thesis by simp
    next
      case (Cons rv rest)
      obtain r v where rv: "rv = (r, v)" by (cases rv)
      let ?w' = "w\<lparr>mmio_in := rest, events := events w @ [Ev_fpgaReadMMIO64 base]\<rparr>"
      from "1.prems" Cons rv have ok: "r = FPGA_OK"
        and rest: "list_all (\<lambda>rv. fst rv = FPGA_OK) (mmio_in ?w')"
        by simp_all
      have rd: "mmio_read64_silent base w = (Returned v, ?w')"
        using Cons rv ok by (simp add: mmio_read64_silent_cases)
      then have eq: "poll_busy base d w = poll_busy base v ?w'"
        using True by (subst poll_busy.simps) simp
      from "1.IH" [OF True rd [symmetric] refl rest] show ?thesis
        by (simp add: eq)
    qed
  qed
qed

lemma await_idle_reads_ok:
  assumes "list_all (\<lambda>rv. fst rv = FPGA_OK) (mmio_in w)"
  shows "fst (await_idle base mode w) \<noteq> Aborted Assert_FPGA_OK"
proof (cases "mmio_in w")
  case Nil
  then have "await_idle base mode w = (Starved, w)"
    by (simp add: await_idle_def then_do_def mmio_read64_silent_cases)
  then show ?thesis by simp
next
  case (Cons rv rest)
  obtain r v where rv: "rv = (r, v)" by (cases rv)
  let ?w' = "w\<lparr>mmio_in := rest, events := events w @ [Ev_fpgaReadMMIO64 base]\<rparr>"
  from assms Cons rv have ok: "r = FPGA_OK"
    and rest: "list_all (\<lambda>rv. fst rv = FPGA_OK) (mmio_in ?w')"
    by simp_all
  have eq: "await_idle base mode w =
      (case poll_busy base v ?w' of
         (Returned x, w'') \<Rightarrow> transfer_done mode w''
       | (Aborted a, w'') \<Rightarrow> (Aborted a, w'')
       | (Fault n, w'') \<Rightarrow> (Fault n, w'')
       | (Starved, w'') \<Rightarrow> (Starved, w''))"
    using Cons rv ok by (simp add: await_idle_def then_do_def mmio_read64_silent_cases)
  obtain x w'' where p: "poll_busy base v ?w' = (x, w'')" by (cases "poll_busy base v ?w'")
  with poll_busy_reads_ok [OF rest, of base v] have "x \<noteq> Aborted Assert_FPGA_OK"
    by simp
  then show ?thesis
    by (cases x) (simp_all add: eq p transfer_done_def)
qed

lemma send_descriptor_returns:
  "\<exists>es. send_descriptor (DMA_DESC_BASE h) desc w = (Returned (), w\<lparr>events := events w @ es\<rparr>)"
  by (simp add: send_descriptor_def DMA_DESC_BASE_def base_mod_8 then_do_def assert_c_def
      fpgaWriteMMIO64_def log_event_def Let_def) blast

lemma dma_transfer_aligned:
  assumes "dev_src mod 64 = 0" and "dev_dest mod 64 = 0"
  shows "dma_transfer h mode dev_src dev_dest n verbose w =
     then_do (send_descriptor (DMA_DESC_BASE h) (make_descriptor h mode dev_src dev_dest n)) (\<lambda>_.
     then_do (send_descriptor (DMA_DESC_BASE h) (make_descriptor h mode dev_src dev_dest n)) (\<lambda>_.
     await_idle (DMA_STATUS_BASE h) mode)) w"
  using assms by (simp add: dma_transfer_def await_idle_def then_do_def assert_c_def Let_def)

lemma byte_mismatches_cong:
  "(\<And>a. a < n \<Longrightarrow> s1 a = s1' a) \<Longrightarrow> byte_mismatches s1 s2 n = byte_mismatches s1' s2 n"
  unfolding byte_mismatches_def
  by (rule arg_cong [where f = length], rule filter_cong) auto

lemma pattern_vs_zero: "byte_mismatches (\<lambda>a. 0) (word_pattern 0 8 (\<lambda>a. 0)) 64 = 7"
  by (simp add: byte_mismatches_def word_pattern_def upt_rec [of _ "numeral n" for n])

lemma pattern_vs_zeroed: "byte_mismatches (memset m 0 1048576) (word_pattern 0 8 (\<lambda>a. 0)) 64 = 7"
proof -
  have "byte_mismatches (memset m 0 1048576) (word_pattern 0 8 (\<lambda>a. 0)) 64 =
      byte_mismatches (\<lambda>a. 0) (word_pattern 0 8 (\<lambda>a. 0)) 64"
    by (rule byte_mismatches_cong) (simp add: memset_def)
  then show ?thesis
    by (simp only: pattern_vs_zero)
qed

lemma pattern_vs_pattern:
  "byte_mismatches (word_pattern 0 8 m) (word_pattern 0 8 m') 64 = 0"
proof -
  have "a < 64 \<Longrightarrow> a div 8 < 8" for a :: nat
    by simp
  then show ?thesis
    by (simp add: byte_mismatches_zero_iff word_pattern_def)
qed

lemma signed_inf_nat: "signed_inf (real n) = PosInf \<or> signed_inf (real n) = NaN"
  by (simp add: signed_inf_def)

lemma uptime_zero_clk:
  assumes "clk_cnt c = 0"
  shows "uptime c = PosInf \<or> uptime c = NaN"
proof -
  have "uptime c = signed_inf (real (unat (valid_cnt c)))"
    unfolding uptime_def to_double_def assms by simp
  then show ?thesis
    using signed_inf_nat [of "unat (valid_cnt c)"] by metis
qed

lemma bandwidth_zero_clk:
  assumes "clk_cnt c = 0"
  shows "bandwidth h c = PosInf \<or> bandwidth h c = NegInf \<or> bandwidth h c = NaN"
  using uptime_zero_clk [OF assms] by (auto simp: bandwidth_def signed_inf_def split: if_splits)

lemma get_bandwidth_two_reads:
  assumes "mmio_in w = (r1, c1) # (r2, c2) # rest"
    and "s_mmio_buf w \<or> (r1 = FPGA_OK \<and> r2 = FPGA_OK)"
  shows "fst (get_bandwidth h mode w) =
     Returned (if d_less (bandwidth h c1) (Finite (MIN_TRPT_GBPS h)) then Finite (- 1)
       else if d_less (bandwidth h c2) (Finite (MIN_TRPT_GBPS h)) then Finite (- 1)
       else d_div (d_add (bandwidth h c1) (bandwidth h c2)) (Finite 2))"
  using assms
  by (auto simp: get_bandwidth_def readMMIO64_def fpgaReadMMIO64_def then_do_def assert_c_def
      return_def Let_def)

lemma get_bandwidth_sentinel:
  assumes "mmio_in w = (r1, c1) # (r2, c2) # rest"
    and "s_mmio_buf w \<or> (r1 = FPGA_OK \<and> r2 = FPGA_OK)"
    and "d_less (bandwidth h c1) (Finite (MIN_TRPT_GBPS h)) \<or>
         d_less (bandwidth h c2) (Finite (MIN_TRPT_GBPS h))"
  shows "fst (get_bandwidth h mode w) = Returned (Finite (- 1))"
  using assms(3) by (auto simp: get_bandwidth_two_reads [OF assms(1,2)])

lemma run_sentinel:
  assumes "sint transfer_size smod 64 = 0"
    and "if s_is_ase_sim w then sint transfer_size \<le> TEST_BUFFER_SIZE_ASE
         else uint (uninit_test_buffer_size w) \<le> TEST_BUFFER_SIZE_HW"
    and "prepare_result w = FPGA_OK" and "ioaddr_result w = FPGA_OK"
    and "unat (transfer_size div 8) \<le> DMA_BUFFER_SIZE div 8"
    and "dma_transfer h host_to_ddr (ioaddr_value w OR DMA_HOST_MASK h) 0
           ((transfer_size - 1) div DMA_LINE_SIZE + 1) verbose
           (w\<lparr>events := events w @ [Ev_fpgaPrepareBuffer DMA_BUFFER_SIZE, Ev_fpgaGetIOAddress],
              host_mem := word_pattern 0 (unat (transfer_size div 8))
                             (memset (host_mem w) 0 DMA_BUFFER_SIZE)\<rparr>)
         = (Returned (), w2)"
    and "get_bandwidth h host_to_ddr w2 = (Returned h2a_bw, w3)"
    and "dma_transfer h ddr_to_host 0 (ioaddr_value w OR DMA_HOST_MASK h)
           ((transfer_size - 1) div DMA_LINE_SIZE + 1) verbose
           (w3\<lparr>host_mem := memset (host_mem w3) 0 DMA_BUFFER_SIZE\<rparr>) = (Returned (), w4)"
    and "get_bandwidth h ddr_to_host w4 = (Returned a2h_bw, w5)"
    and "h2a_bw = Finite (- 1) \<or> a2h_bw = Finite (- 1)"
  shows "run_basic_ddr_dma_test h transfer_size verbose w = (Returned (- 1), w5)"
  using assms
  by (auto simp: run_defs expected_result_closed fill_words_closed split: if_splits)


section \<open>The claims\<close>

subsection \<open>C1: the return value and the mismatches\<close>

text \<open>
  C1, as stated, fails: the return value is not the number of bytes that differ.  With
  a device that leaves the zeroed host buffer as it is, a transfer of 64 bytes ends with
  seven bytes different from the expected pattern (the low bytes of the words 1 to 7),
  and \<^verbatim>\<open>run_basic_ddr_dma_test\<close> returns 1.
\<close>

theorem return_value_not_mismatch_count:
  "fst (run_basic_ddr_dma_test example_h 64 False (example_world
       [(FPGA_OK, 0), (FPGA_OK, 0xFFFFFFFFFF), (FPGA_OK, 0xFFFFFFFFFF),
        (FPGA_OK, 0), (FPGA_OK, 0xFFFFFFFFFF), (FPGA_OK, 0xFFFFFFFFFF)])) = Returned 1 \<and>
   byte_mismatches
     (host_mem (snd (run_basic_ddr_dma_test example_h 64 False (example_world
       [(FPGA_OK, 0), (FPGA_OK, 0xFFFFFFFFFF), (FPGA_OK, 0xFFFFFFFFFF),
        (FPGA_OK, 0), (FPGA_OK, 0xFFFFFFFFFF), (FPGA_OK, 0xFFFFFFFFFF)]))))
     (word_pattern 0 8 (\<lambda>a. 0)) 64 = 7"
  by (simp add: eval_defs memcmp_byte_mismatches pattern_vs_zeroed)

text \<open>
  C1, amended: when \<^verbatim>\<open>run_basic_ddr_dma_test\<close> completes the comparison (both OPAE
  calls succeeded and the value returned is not negative), it returns 0 if no byte of
  the host buffer differs from the expected ascending pattern over the transfer size,
  and 1 if at least one byte differs.
\<close>

theorem return_value_is_mismatch_flag:
  assumes "run_basic_ddr_dma_test h transfer_size verbose w = (Returned r, w')"
    and "prepare_result w = FPGA_OK" and "ioaddr_result w = FPGA_OK" and "0 \<le> r"
  shows "r = (if byte_mismatches (host_mem w')
                   (word_pattern 0 (unat (transfer_size div 8)) (\<lambda>a. 0)) (unat transfer_size) = 0
              then 0 else 1)"
  using assms
  by (auto simp: run_basic_ddr_dma_test_def then_do_def assert_c_def return_def log_event_def
      fpgaPrepareBuffer_def fpgaGetIOAddress_def fpgaReleaseBuffer_def set_host_mem_def
      fill_dma_buf_def ON_ERR_GOTO_release_buf_def release_buf_def count_error_def
      check_result_def expected_result_closed fill_words_closed memcmp_byte_mismatches
      split: if_splits prod.splits outcome.splits)

text \<open>
  A run of C1's amended theorem: 64 bytes, one busy status before the first transfer
  completes, a device that returns the pattern; the run returns 0 and no byte differs.
\<close>

theorem return_value_is_mismatch_flag_witness:
  "fst (run_basic_ddr_dma_test example_h 64 False
     ((example_world
       [(FPGA_OK, 1), (FPGA_OK, 0), (FPGA_OK, 0xFFFFFFFFFF), (FPGA_OK, 0xFFFFFFFFFF),
        (FPGA_OK, 0), (FPGA_OK, 0xFFFFFFFFFF), (FPGA_OK, 0xFFFFFFFFFF)])
        \<lparr>device_dma := returning_device\<rparr>)) = Returned 0 \<and>
   byte_mismatches
     (host_mem (snd (run_basic_ddr_dma_test example_h 64 False
     ((example_world
       [(FPGA_OK, 1), (FPGA_OK, 0), (FPGA_OK, 0xFFFFFFFFFF), (FPGA_OK, 0xFFFFFFFFFF),
        (FPGA_OK, 0), (FPGA_OK, 0xFFFFFFFFFF), (FPGA_OK, 0xFFFFFFFFFF)])
        \<lparr>device_dma := returning_device\<rparr>))))
     (word_pattern 0 8 (\<lambda>a. 0)) 64 = 0"
proof -
  let ?w = "(example_world
       [(FPGA_OK, 1), (FPGA_OK, 0), (FPGA_OK, 0xFFFFFFFFFF), (FPGA_OK, 0xFFFFFFFFFF),
        (FPGA_OK, 0), (FPGA_OK, 0xFFFFFFFFFF), (FPGA_OK, 0xFFFFFFFFFF)])
        \<lparr>device_dma := returning_device\<rparr>"
  let ?run = "run_basic_ddr_dma_test example_h 64 False ?w"
  have r: "fst ?run = Returned 0"
    by (simp add: eval_defs memcmp_byte_mismatches returning_device_def pattern_vs_pattern)
  then have "?run = (Returned 0, snd ?run)"
    by (simp add: prod_eq_iff)
  from return_value_is_mismatch_flag [OF this] have "(0::int) = (if byte_mismatches (host_mem (snd ?run))
      (word_pattern 0 (unat ((64 :: 32 word) div 8)) (\<lambda>a. 0)) (unat (64 :: 32 word)) = 0 then 0 else 1)"
    by (simp add: example_world_def)
  then have "byte_mismatches (host_mem (snd ?run)) (word_pattern 0 8 (\<lambda>a. 0)) 64 = 0"
    by (simp split: if_splits)
  with r show ?thesis by simp
qed

subsection \<open>C2: the release of the buffer\<close>

text \<open>
  C2 is not what the code does on the bandwidth abort.  In this run of 64 bytes the read
  counter of the first measurement has no valid cycle in one cycle, so the first
  \<^verbatim>\<open>get_bandwidth\<close> returns the sentinel; the function returns \<open>-1\<close> after the second
  measurement, the buffer has been prepared, and \<^verbatim>\<open>fpgaReleaseBuffer\<close> is never
  called.
\<close>

theorem bandwidth_abort_skips_release:
  "fst (run_basic_ddr_dma_test example_h 64 False (example_world
       [(FPGA_OK, 0), (FPGA_OK, 0x100000),
        (FPGA_OK, 0), (FPGA_OK, 0xFFFFFFFFFF), (FPGA_OK, 0xFFFFFFFFFF)])) = Returned (- 1) \<and>
   Ev_fpgaPrepareBuffer DMA_BUFFER_SIZE \<in> set (events (snd
     (run_basic_ddr_dma_test example_h 64 False (example_world
       [(FPGA_OK, 0), (FPGA_OK, 0x100000),
        (FPGA_OK, 0), (FPGA_OK, 0xFFFFFFFFFF), (FPGA_OK, 0xFFFFFFFFFF)])))) \<and>
   Ev_fpgaReleaseBuffer \<notin> set (events (snd
     (run_basic_ddr_dma_test example_h 64 False (example_world
       [(FPGA_OK, 0), (FPGA_OK, 0x100000),
        (FPGA_OK, 0), (FPGA_OK, 0xFFFFFFFFFF), (FPGA_OK, 0xFFFFFFFFFF)]))))"
  by (simp add: eval_defs)

subsection \<open>C3: a total-cycle count of zero\<close>

text \<open>
  C3, as stated, fails: with a read counter and a write counter that both hold one valid
  cycle in zero cycles, \<^verbatim>\<open>get_bandwidth\<close> returns plus infinity, a numeric bandwidth
  and no distinguished result.
\<close>

theorem zero_clk_cnt_gives_infinity:
  "fst (get_bandwidth example_h host_to_ddr (example_world [(FPGA_OK, 1), (FPGA_OK, 1)]))
     = Returned PosInf"
  by (simp add: bw_defs fpgaReadMMIO64_def then_do_def assert_c_def return_def const_defs)

text \<open>
  C3, amended: \<^verbatim>\<open>get_bandwidth\<close> divides by a total-cycle count of zero without a
  guard.  No fault is raised; when the read counter or the write counter has a
  total-cycle count of zero and both reads succeed, the call returns plus infinity, a
  NaN, or the sentinel \<open>-1\<close> (when a direction is below the threshold).  There is no
  distinguished result for "no activity".
\<close>

theorem zero_clk_cnt_not_guarded:
  assumes ins: "mmio_in w = (r1, c1) # (r2, c2) # rest"
    and ok: "s_mmio_buf w \<or> (r1 = FPGA_OK \<and> r2 = FPGA_OK)"
    and z: "clk_cnt c1 = 0 \<or> clk_cnt c2 = 0"
  shows "fst (get_bandwidth h mode w) = Returned PosInf \<or>
         fst (get_bandwidth h mode w) = Returned NaN \<or>
         fst (get_bandwidth h mode w) = Returned (Finite (- 1))"
proof -
  let ?b1 = "bandwidth h c1" and ?b2 = "bandwidth h c2" and ?m = "Finite (MIN_TRPT_GBPS h)"
  have avg: "d_div (d_add ?b1 ?b2) (Finite 2) = PosInf \<or> d_div (d_add ?b1 ?b2) (Finite 2) = NaN"
    if "\<not> d_less ?b1 ?m" and "\<not> d_less ?b2 ?m"
  proof -
    from z have "(?b1 = PosInf \<or> ?b1 = NegInf \<or> ?b1 = NaN) \<or> (?b2 = PosInf \<or> ?b2 = NegInf \<or> ?b2 = NaN)"
      using bandwidth_zero_clk [of c1 h] bandwidth_zero_clk [of c2 h] by blast
    with that show ?thesis
      by (cases ?b1; cases ?b2) auto
  qed
  show ?thesis
    unfolding get_bandwidth_two_reads [OF ins ok] using avg by auto
qed

text \<open>A run of C3's amended theorem: a read counter of zero, a write counter busy in
  every cycle.\<close>

theorem zero_clk_cnt_not_guarded_witness:
  "clk_cnt 0 = 0 \<and>
   (fst (get_bandwidth example_h host_to_ddr (example_world [(FPGA_OK, 0), (FPGA_OK, 0xFFFFFFFFFF)]))
      = Returned PosInf \<or>
    fst (get_bandwidth example_h host_to_ddr (example_world [(FPGA_OK, 0), (FPGA_OK, 0xFFFFFFFFFF)]))
      = Returned NaN \<or>
    fst (get_bandwidth example_h host_to_ddr (example_world [(FPGA_OK, 0), (FPGA_OK, 0xFFFFFFFFFF)]))
      = Returned (Finite (- 1)))"
proof -
  have z: "clk_cnt 0 = 0"
    by (simp add: clk_cnt_def)
  have ins: "mmio_in (example_world [(FPGA_OK, 0), (FPGA_OK, 0xFFFFFFFFFF)]) =
      (FPGA_OK, 0) # (FPGA_OK, 0xFFFFFFFFFF) # []"
    by (simp add: example_world_def)
  show ?thesis
    using z zero_clk_cnt_not_guarded [OF ins, of example_h host_to_ddr] by simp
qed

subsection \<open>C4: the bandwidth sentinel\<close>

text \<open>
  C4, as stated, fails in its second half: a sentinel from the first \<^verbatim>\<open>get_bandwidth\<close>
  does not end the run.  The check is made only after the second transfer and the second
  measurement (line 351), so the run still zeroes the buffer and starts the second
  transfer.  In the first run below the read counter of the first measurement has no
  valid cycle, so the first call returns the sentinel (first conjunct: the call in the
  world the first transfer left), and the status read of the second transfer answers
  \<^verbatim>\<open>FPGA_EXCEPTION\<close>: the run stops at an assertion, with no negative result.  In the
  second run the engine stays busy for as long as the device answers: the run has not
  returned.
\<close>

theorem sentinel_then_no_negative_result:
  "fst (get_bandwidth example_h host_to_ddr
     (snd (dma_transfer example_h host_to_ddr (0x1000 OR DMA_HOST_MASK example_h) 0 1 False
       ((example_world [(FPGA_OK, 0), (FPGA_OK, 0x100000), (FPGA_EXCEPTION, 0)])
          \<lparr>events := [Ev_fpgaPrepareBuffer DMA_BUFFER_SIZE, Ev_fpgaGetIOAddress],
           host_mem := word_pattern 0 8 (memset (host_mem (example_world [])) 0 DMA_BUFFER_SIZE)\<rparr>))))
     = Returned (Finite (- 1)) \<and>
   fst (run_basic_ddr_dma_test example_h 64 False
     (example_world [(FPGA_OK, 0), (FPGA_OK, 0x100000), (FPGA_EXCEPTION, 0)]))
     = Aborted Assert_FPGA_OK \<and>
   fst (run_basic_ddr_dma_test example_h 64 False
     (example_world [(FPGA_OK, 0), (FPGA_OK, 0x100000), (FPGA_OK, 1), (FPGA_OK, 1), (FPGA_OK, 1)]))
     = Starved"
  by (simp add: eval_defs)

text \<open>
  C4, amended: if the bandwidth derived from the read counter or from the write counter
  is below \<^verbatim>\<open>MIN_TRPT_GBPS\<close>, \<^verbatim>\<open>get_bandwidth\<close> returns the sentinel \<open>-1\<close> (the two
  register reads succeeding); and when both transfers of \<^verbatim>\<open>run_basic_ddr_dma_test\<close>
  and both calls of \<^verbatim>\<open>get_bandwidth\<close> have returned and one of the two values is the
  sentinel, the function returns \<open>-1\<close> in the world the second measurement left: no
  comparison is made.
\<close>

theorem bandwidth_sentinel_aborts:
  "(mmio_in w = (r1, c1) # (r2, c2) # rest \<and>
    (s_mmio_buf w \<or> (r1 = FPGA_OK \<and> r2 = FPGA_OK)) \<and>
    (d_less (bandwidth h c1) (Finite (MIN_TRPT_GBPS h)) \<or>
     d_less (bandwidth h c2) (Finite (MIN_TRPT_GBPS h)))
    \<longrightarrow> fst (get_bandwidth h mode w) = Returned (Finite (- 1))) \<and>
   (sint transfer_size smod 64 = 0 \<and>
    (if s_is_ase_sim w0 then sint transfer_size \<le> TEST_BUFFER_SIZE_ASE
     else uint (uninit_test_buffer_size w0) \<le> TEST_BUFFER_SIZE_HW) \<and>
    prepare_result w0 = FPGA_OK \<and> ioaddr_result w0 = FPGA_OK \<and>
    unat (transfer_size div 8) \<le> DMA_BUFFER_SIZE div 8 \<and>
    dma_transfer h host_to_ddr (ioaddr_value w0 OR DMA_HOST_MASK h) 0
       ((transfer_size - 1) div DMA_LINE_SIZE + 1) verbose
       (w0\<lparr>events := events w0 @ [Ev_fpgaPrepareBuffer DMA_BUFFER_SIZE, Ev_fpgaGetIOAddress],
          host_mem := word_pattern 0 (unat (transfer_size div 8))
                         (memset (host_mem w0) 0 DMA_BUFFER_SIZE)\<rparr>)
      = (Returned (), w2) \<and>
    get_bandwidth h host_to_ddr w2 = (Returned h2a_bw, w3) \<and>
    dma_transfer h ddr_to_host 0 (ioaddr_value w0 OR DMA_HOST_MASK h)
       ((transfer_size - 1) div DMA_LINE_SIZE + 1) verbose
       (w3\<lparr>host_mem := memset (host_mem w3) 0 DMA_BUFFER_SIZE\<rparr>) = (Returned (), w4) \<and>
    get_bandwidth h ddr_to_host w4 = (Returned a2h_bw, w5) \<and>
    (h2a_bw = Finite (- 1) \<or> a2h_bw = Finite (- 1))
    \<longrightarrow> run_basic_ddr_dma_test h transfer_size verbose w0 = (Returned (- 1), w5))"
  using get_bandwidth_sentinel [of w r1 c1 r2 c2 rest h mode]
    run_sentinel [of transfer_size w0 h verbose w2 h2a_bw w3 w4 a2h_bw w5]
  by blast

text \<open>
  A run of C4's amended theorem: a read counter with no valid cycle for \<^verbatim>\<open>get_bandwidth\<close>;
  and a test of 64 bytes whose second measurement finds a write counter with no valid
  cycle.
\<close>

theorem bandwidth_sentinel_aborts_witness:
  "fst (get_bandwidth example_h host_to_ddr
      (example_world [(FPGA_OK, 0x100000), (FPGA_OK, 0xFFFFFFFFFF)])) = Returned (Finite (- 1)) \<and>
   fst (run_basic_ddr_dma_test example_h 64 False (example_world
       [(FPGA_OK, 1), (FPGA_OK, 0), (FPGA_OK, 0xFFFFFFFFFF), (FPGA_OK, 0xFFFFFFFFFF),
        (FPGA_OK, 0), (FPGA_OK, 0xFFFFFFFFFF), (FPGA_OK, 0x100000)])) = Returned (- 1)"
proof -
  let ?g = "example_world [(FPGA_OK, 0x100000), (FPGA_OK, 0xFFFFFFFFFF)]"
  let ?w0 = "example_world
       [(FPGA_OK, 1), (FPGA_OK, 0), (FPGA_OK, 0xFFFFFFFFFF), (FPGA_OK, 0xFFFFFFFFFF),
        (FPGA_OK, 0), (FPGA_OK, 0xFFFFFFFFFF), (FPGA_OK, 0x100000)]"
  let ?w1 = "?w0\<lparr>events := events ?w0 @ [Ev_fpgaPrepareBuffer DMA_BUFFER_SIZE, Ev_fpgaGetIOAddress],
          host_mem := word_pattern 0 (unat ((64 :: 32 word) div 8))
                         (memset (host_mem ?w0) 0 DMA_BUFFER_SIZE)\<rparr>"
  let ?t1 = "dma_transfer example_h host_to_ddr (ioaddr_value ?w0 OR DMA_HOST_MASK example_h) 0
       (((64 :: 32 word) - 1) div DMA_LINE_SIZE + 1) False ?w1"
  let ?b1 = "get_bandwidth example_h host_to_ddr (snd ?t1)"
  let ?w3 = "(snd ?b1)\<lparr>host_mem := memset (host_mem (snd ?b1)) 0 DMA_BUFFER_SIZE\<rparr>"
  let ?t2 = "dma_transfer example_h ddr_to_host 0 (ioaddr_value ?w0 OR DMA_HOST_MASK example_h)
       (((64 :: 32 word) - 1) div DMA_LINE_SIZE + 1) False ?w3"
  let ?b2 = "get_bandwidth example_h ddr_to_host (snd ?t2)"
  have t1: "?t1 = (Returned (), snd ?t1)"
    by (simp add: prod_eq_iff eval_defs)
  have b1: "?b1 = (Returned (Finite (64 / 5)), snd ?b1)"
    by (simp add: prod_eq_iff eval_defs)
  have t2: "?t2 = (Returned (), snd ?t2)"
    by (simp add: prod_eq_iff eval_defs)
  have b2: "?b2 = (Returned (Finite (- 1)), snd ?b2)"
    by (simp add: prod_eq_iff eval_defs)
  have pre: "sint (64 :: 32 word) smod 64 = 0"
    "if s_is_ase_sim ?w0 then sint (64 :: 32 word) \<le> TEST_BUFFER_SIZE_ASE
     else uint (uninit_test_buffer_size ?w0) \<le> TEST_BUFFER_SIZE_HW"
    "prepare_result ?w0 = FPGA_OK" "ioaddr_result ?w0 = FPGA_OK"
    "unat ((64 :: 32 word) div 8) \<le> DMA_BUFFER_SIZE div 8"
    by (simp_all add: const_defs)
  have g: "mmio_in ?g = (FPGA_OK, 0x100000) # (FPGA_OK, 0xFFFFFFFFFF) # []"
    "d_less (bandwidth example_h 0x100000) (Finite (MIN_TRPT_GBPS example_h))"
    by (simp_all add: bw_defs const_defs)
  from bandwidth_sentinel_aborts [of ?g FPGA_OK "0x100000" FPGA_OK "0xFFFFFFFFFF" "[]" example_h host_to_ddr
      64 ?w0 False "snd ?t1" "Finite (64 / 5)" "snd ?b1" "snd ?t2" "Finite (- 1)" "snd ?b2"]
    g pre t1 b1 t2 b2
  show ?thesis
    by simp
qed

subsection \<open>C5: a failing OPAE call\<close>

text \<open>
  C5 is not what the code does: when \<^verbatim>\<open>fpgaPrepareBuffer\<close> or \<^verbatim>\<open>fpgaGetIOAddress\<close>
  fails (the size checks having passed), the function counts the error in
  \<open>s_error_count\<close> and calls \<^verbatim>\<open>fpgaReleaseBuffer\<close> last, but it returns 0, the value
  of a passing run.
\<close>

theorem device_error_returns_zero:
  assumes "sint transfer_size smod 64 = 0"
    and "if s_is_ase_sim w then sint transfer_size \<le> TEST_BUFFER_SIZE_ASE
         else uint (uninit_test_buffer_size w) \<le> TEST_BUFFER_SIZE_HW"
    and "prepare_result w \<noteq> FPGA_OK \<or> ioaddr_result w \<noteq> FPGA_OK"
  shows "fst (run_basic_ddr_dma_test h transfer_size verbose w) = Returned 0 \<and>
     s_error_count (snd (run_basic_ddr_dma_test h transfer_size verbose w)) = s_error_count w + 1 \<and>
     last (events (snd (run_basic_ddr_dma_test h transfer_size verbose w))) = Ev_fpgaReleaseBuffer"
  using assms
  by (auto simp: run_defs expected_result_closed split: if_splits)

text \<open>A run of C5's theorem: \<^verbatim>\<open>fpgaPrepareBuffer\<close> answers \<^verbatim>\<open>FPGA_NO_MEMORY\<close>.\<close>

theorem device_error_returns_zero_witness:
  "fst (run_basic_ddr_dma_test example_h 64 False
          ((example_world [])\<lparr>prepare_result := FPGA_NO_MEMORY\<rparr>)) = Returned 0 \<and>
   s_error_count (snd (run_basic_ddr_dma_test example_h 64 False
          ((example_world [])\<lparr>prepare_result := FPGA_NO_MEMORY\<rparr>))) = 1 \<and>
   last (events (snd (run_basic_ddr_dma_test example_h 64 False
          ((example_world [])\<lparr>prepare_result := FPGA_NO_MEMORY\<rparr>)))) = Ev_fpgaReleaseBuffer"
  using device_error_returns_zero [of 64 "(example_world [])\<lparr>prepare_result := FPGA_NO_MEMORY\<rparr>" example_h False]
  by (simp add: const_defs)

subsection \<open>C6: the size checks\<close>

text \<open>
  C6 is not what the code does outside simulation: the capacity check reads the local
  \<^verbatim>\<open>test_buffer_size\<close> before it is assigned.  Where that local happens to hold 0, a
  request of 4 MiB, twice the capacity, passes both checks: the buffer is prepared and
  its address fetched (the run then stores beyond the buffer, see C10).  A request of
  100 bytes is stopped by the first assertion before any OPAE call.
\<close>

theorem hw_size_check_reads_unassigned:
  "fst (run_basic_ddr_dma_test example_h 4194304 False
          ((example_world [])\<lparr>s_is_ase_sim := False\<rparr>)) = Fault 131072 \<and>
   events (snd (run_basic_ddr_dma_test example_h 4194304 False
          ((example_world [])\<lparr>s_is_ase_sim := False\<rparr>))) =
     [Ev_fpgaPrepareBuffer DMA_BUFFER_SIZE, Ev_fpgaGetIOAddress] \<and>
   run_basic_ddr_dma_test example_h 100 False ((example_world [])\<lparr>s_is_ase_sim := False\<rparr>) =
     (Aborted Assert_transfer_size_mod_64, (example_world [])\<lparr>s_is_ase_sim := False\<rparr>)"
  by (simp add: eval_defs)

subsection \<open>C7: the alignment assertions\<close>

text \<open>
  C7, as stated, fails in its second half: with both addresses multiples of 64 an
  assertion can still fire.  \<^verbatim>\<open>dma_transfer\<close> reads the status register through
  \<^verbatim>\<open>mmio_read64_silent\<close>, which asserts that \<^verbatim>\<open>fpgaReadMMIO64\<close> answered
  \<^verbatim>\<open>FPGA_OK\<close>; here the first status read answers \<^verbatim>\<open>FPGA_EXCEPTION\<close>.
\<close>

theorem aligned_transfer_assertion_fires:
  "(0x2000000001000 :: 64 word) mod 64 = 0 \<and> (0 :: 64 word) mod 64 = 0 \<and>
   fst (dma_transfer example_h host_to_ddr 0x2000000001000 0 1 False
          (example_world [(FPGA_EXCEPTION, 0)])) = Aborted Assert_FPGA_OK"
  by (simp add: xfer_defs then_do_def assert_c_def return_def log_event_def const_defs)

text \<open>
  C7, amended: when the source address or the destination address is not a multiple of
  64, \<^verbatim>\<open>dma_transfer\<close> stops at the assertion on that address with the world as it
  was (no register has been written or read).  When both are multiples of 64, the call
  returns, or stops at the assertion on the result of a status read, or is still
  polling when the answers end: the alignment assertions and the one of
  \<^verbatim>\<open>send_descriptor\<close> do not fire; and when every status read answers \<^verbatim>\<open>FPGA_OK\<close>, no
  assertion fires at all.
\<close>

theorem dma_transfer_alignment_checked:
  "(dev_src mod 64 \<noteq> 0 \<or> dev_dest mod 64 \<noteq> 0 \<longrightarrow>
      dma_transfer h mode dev_src dev_dest n verbose w =
        (Aborted (if dev_src mod 64 \<noteq> 0 then Assert_dev_src_mod_64 else Assert_dev_dest_mod_64), w)) \<and>
   (dev_src mod 64 = 0 \<and> dev_dest mod 64 = 0 \<longrightarrow>
      (fst (dma_transfer h mode dev_src dev_dest n verbose w) = Returned () \<or>
       fst (dma_transfer h mode dev_src dev_dest n verbose w) = Aborted Assert_FPGA_OK \<or>
       fst (dma_transfer h mode dev_src dev_dest n verbose w) = Starved) \<and>
      (list_all (\<lambda>rv. fst rv = FPGA_OK) (mmio_in w) \<longrightarrow>
         fst (dma_transfer h mode dev_src dev_dest n verbose w) = Returned () \<or>
         fst (dma_transfer h mode dev_src dev_dest n verbose w) = Starved))"
proof (intro conjI impI)
  assume "dev_src mod 64 \<noteq> 0 \<or> dev_dest mod 64 \<noteq> 0"
  then show "dma_transfer h mode dev_src dev_dest n verbose w =
        (Aborted (if dev_src mod 64 \<noteq> 0 then Assert_dev_src_mod_64 else Assert_dev_dest_mod_64), w)"
    by (auto simp: dma_transfer_def then_do_def assert_c_def)
next
  assume al: "dev_src mod 64 = 0 \<and> dev_dest mod 64 = 0"
  let ?d = "make_descriptor h mode dev_src dev_dest n"
  obtain es1 where s1: "send_descriptor (DMA_DESC_BASE h) ?d w =
      (Returned (), w\<lparr>events := events w @ es1\<rparr>)"
    using send_descriptor_returns by blast
  obtain es2 where s2: "send_descriptor (DMA_DESC_BASE h) ?d (w\<lparr>events := events w @ es1\<rparr>) =
      (Returned (), w\<lparr>events := events w @ es1, events := events (w\<lparr>events := events w @ es1\<rparr>) @ es2\<rparr>)"
    using send_descriptor_returns by blast
  have eq: "dma_transfer h mode dev_src dev_dest n verbose w =
      await_idle (DMA_STATUS_BASE h) mode (w\<lparr>events := (events w @ es1) @ es2\<rparr>)"
    using al s1 s2 by (simp add: dma_transfer_aligned then_do_def)
  show three: "fst (dma_transfer h mode dev_src dev_dest n verbose w) = Returned () \<or>
      fst (dma_transfer h mode dev_src dev_dest n verbose w) = Aborted Assert_FPGA_OK \<or>
      fst (dma_transfer h mode dev_src dev_dest n verbose w) = Starved"
    unfolding eq using await_idle_result by blast
  assume "list_all (\<lambda>rv. fst rv = FPGA_OK) (mmio_in w)"
  then have "fst (dma_transfer h mode dev_src dev_dest n verbose w) \<noteq> Aborted Assert_FPGA_OK"
    unfolding eq by (intro await_idle_reads_ok) simp
  with three show "fst (dma_transfer h mode dev_src dev_dest n verbose w) = Returned () \<or>
      fst (dma_transfer h mode dev_src dev_dest n verbose w) = Starved"
    by blast
qed

text \<open>Runs of C7's amended theorem: a source address of \<open>0x1001\<close>, a destination
  address of \<open>0x1020\<close>, and a transfer with both addresses aligned whose status reads
  succeed.\<close>

theorem dma_transfer_alignment_checked_witness:
  "dma_transfer example_h host_to_ddr 0x1001 0 1 False (example_world [(FPGA_OK, 0)]) =
     (Aborted Assert_dev_src_mod_64, example_world [(FPGA_OK, 0)]) \<and>
   dma_transfer example_h ddr_to_host 0 0x1020 1 False (example_world [(FPGA_OK, 0)]) =
     (Aborted Assert_dev_dest_mod_64, example_world [(FPGA_OK, 0)]) \<and>
   (fst (dma_transfer example_h host_to_ddr 0x2000000001000 0 1 False
          (example_world [(FPGA_OK, 1), (FPGA_OK, 0)])) = Returned () \<or>
    fst (dma_transfer example_h host_to_ddr 0x2000000001000 0 1 False
          (example_world [(FPGA_OK, 1), (FPGA_OK, 0)])) = Starved)"
  using dma_transfer_alignment_checked [of "0x1001" 0 example_h host_to_ddr 1 False "example_world [(FPGA_OK, 0)]"]
    dma_transfer_alignment_checked [of 0 "0x1020" example_h ddr_to_host 1 False "example_world [(FPGA_OK, 0)]"]
    dma_transfer_alignment_checked [of "0x2000000001000" 0 example_h host_to_ddr 1 False
      "example_world [(FPGA_OK, 1), (FPGA_OK, 0)]"]
  by (simp add: example_world_def)

subsection \<open>C8: the descriptor is submitted twice\<close>



subsection \<open>C9: the counts of a performance counter\<close>

text \<open>C9: the valid-cycle count and the total-cycle count that \<^verbatim>\<open>get_bandwidth\<close> takes
  from a raw 64-bit performance counter both lie in the range from 0 to \<open>2^20 - 1\<close>.\<close>

theorem perf_counts_in_range:
  "unat (valid_cnt perf_cntr) \<le> 2 ^ 20 - 1 \<and> unat (clk_cnt perf_cntr) \<le> 2 ^ 20 - 1"
proof -
  have e: "(2::nat) ^ 20 - 1 = 1048575" by simp
  show ?thesis
    unfolding valid_cnt_def clk_cnt_def mask_20 e
    using unat_and_mask_20 [of perf_cntr] unat_and_mask_20 [of "drop_bit 20 perf_cntr"]
    by linarith
qed

subsection \<open>C10: the fill loop and the size of the buffer\<close>

text \<open>
  C10 is not what the code does: a transfer size of \<open>2048 * 1024\<close> bytes passes the
  checks in simulation, and the loop that fills the host buffer then stores at word
  index \<open>131072\<close>, the first word beyond the \<^verbatim>\<open>DMA_BUFFER_SIZE\<close> bytes prepared.
\<close>

theorem accepted_size_overruns_dma_buf:
  "fst (run_basic_ddr_dma_test example_h 2097152 False (example_world [])) =
     Fault (DMA_BUFFER_SIZE div 8)"
  by (simp add: eval_defs)

end
